theory Spec2Isabelle
  imports Main
begin

section \<open>Configuration model (internal/config/config.go)\<close>

text \<open>
  The two structs of the config package. Go's \<^verbatim>\<open>int\<close> fields are only stored, copied
  and compared with zero, never computed with, so they are integers here; the parsers that
  produce them check the 64-bit range. A slice is the list of its elements: \<^verbatim>\<open>len\<close>,
  \<^verbatim>\<open>copy\<close> and indexing, the only slice operations of this package, do not tell a nil
  slice from an empty one. A \<^verbatim>\<open>*Config\<close> argument is a \<open>Config option\<close>, \<open>None\<close>
  being the nil pointer.
\<close>

record ServerConfig =
  Port :: int
  ShutdownTimeout :: int
  ReadTimeout :: int
  WriteTimeout :: int
  AllowedOrigins :: "string list"
  AllowedMethods :: "string list"
  EnableLogging :: bool

record Config =
  Server :: ServerConfig

definition GetDefaultConfig :: Config where
  "GetDefaultConfig =
     \<lparr>Server = \<lparr>Port = 8080,
                 ShutdownTimeout = 30,
                 ReadTimeout = 10,
                 WriteTimeout = 10,
                 AllowedOrigins = [''*''],
                 AllowedMethods = [''GET'', ''POST'', ''PUT'', ''DELETE'', ''OPTIONS''],
                 EnableLogging = True\<rparr>\<rparr>"

subsection \<open>Slice builtins\<close>

text \<open>\<^verbatim>\<open>make([]string, n)\<close>: \<open>n\<close> empty strings.\<close>

definition make_slice :: "nat \<Rightarrow> string list" where
  "make_slice n = replicate n []"

text \<open>
  \<^verbatim>\<open>copy(dst, src)\<close> overwrites the first \<open>min (len dst) (len src)\<close> elements of
  \<open>dst\<close>; the value is \<open>dst\<close> afterwards.
\<close>

definition copy_slice :: "'a list \<Rightarrow> 'a list \<Rightarrow> 'a list" where
  "copy_slice dst src =
     (let n = min (length dst) (length src) in take n src @ drop n dst)"

subsection \<open>MergeConfigs\<close>

text \<open>
  The body of \<^verbatim>\<open>MergeConfigs\<close>, statement by statement: \<open>r0\<close> is the composite literal,
  \<open>r1\<close> and \<open>r2\<close> the two \<^verbatim>\<open>copy\<close> calls, \<open>r3\<close> the port override, \<open>r4\<close> the
  origins override and \<open>r5\<close> the unconditional assignment of EnableLogging.
\<close>

definition MergeConfigs :: "Config option \<Rightarrow> Config option \<Rightarrow> Config" where
  "MergeConfigs base0 override0 =
     (let base = (case base0 of None \<Rightarrow> GetDefaultConfig | Some b \<Rightarrow> b) in
      case override0 of
        None \<Rightarrow> base
      | Some override \<Rightarrow>
          (let r0 = \<lparr>Port = Port (Server base),
                     ShutdownTimeout = ShutdownTimeout (Server base),
                     ReadTimeout = ReadTimeout (Server base),
                     WriteTimeout = WriteTimeout (Server base),
                     AllowedOrigins = make_slice (length (AllowedOrigins (Server base))),
                     AllowedMethods = make_slice (length (AllowedMethods (Server base))),
                     EnableLogging = EnableLogging (Server base)\<rparr>;
               r1 = r0\<lparr>AllowedOrigins :=
                         copy_slice (AllowedOrigins r0) (AllowedOrigins (Server base))\<rparr>;
               r2 = r1\<lparr>AllowedMethods :=
                         copy_slice (AllowedMethods r1) (AllowedMethods (Server base))\<rparr>;
               r3 = (if Port (Server override) \<noteq> 0
                     then r2\<lparr>Port := Port (Server override)\<rparr> else r2);
               r4 = (if length (AllowedOrigins (Server override)) > 0
                     then r3\<lparr>AllowedOrigins :=
                              copy_slice
                                (make_slice (length (AllowedOrigins (Server override))))
                                (AllowedOrigins (Server override))\<rparr>
                     else r3);
               r5 = r4\<lparr>EnableLogging := EnableLogging (Server override)\<rparr>
           in \<lparr>Server = r5\<rparr>))"

section \<open>Library functions used by the loaders\<close>

text \<open>
  The loaders call into \<^verbatim>\<open>strconv\<close> and \<^verbatim>\<open>strings\<close> of Go's standard library. These
  are modelled on byte strings as the library documents them.
\<close>

datatype NumError = ErrSyntax | ErrRange

definition is_digit :: "char \<Rightarrow> bool" where
  "is_digit c = (48 \<le> (of_char c :: nat) \<and> (of_char c :: nat) \<le> 57)"

text \<open>The value of a run of decimal digits, most significant first; \<open>None\<close> at a byte
  that is no digit.\<close>

fun digits_value :: "string \<Rightarrow> nat \<Rightarrow> nat option" where
  "digits_value [] acc = Some acc"
| "digits_value (c # cs) acc =
     (if is_digit c then digits_value cs (acc * 10 + ((of_char c :: nat) - 48)) else None)"

text \<open>
  \<^verbatim>\<open>strconv.Atoi\<close>: an optional sign, then at least one decimal digit and nothing else;
  the value has to fit the 64-bit \<^verbatim>\<open>int\<close>.
\<close>

definition Atoi :: "string \<Rightarrow> NumError + int" where
  "Atoi s =
     (case s of
        [] \<Rightarrow> Inl ErrSyntax
      | c # cs \<Rightarrow>
          (let neg = (c = CHR ''-'');
               body = (if c = CHR ''-'' then cs else if c = CHR ''+'' then cs else s)
           in if body = [] then Inl ErrSyntax
              else (case digits_value body 0 of
                      None \<Rightarrow> Inl ErrSyntax
                    | Some n \<Rightarrow>
                        (let v = (if neg then - int n else int n)
                         in if v < - (2 ^ 63) then Inl ErrRange
                            else if 2 ^ 63 - 1 < v then Inl ErrRange
                            else Inr v))))"

text \<open>\<^verbatim>\<open>strconv.ParseBool\<close>: exactly twelve tokens are accepted.\<close>

definition ParseBool :: "string \<Rightarrow> NumError + bool" where
  "ParseBool str =
     (if str \<in> set [''1'', ''t'', ''T'', ''TRUE'', ''true'', ''True''] then Inr True
      else if str \<in> set [''0'', ''f'', ''F'', ''FALSE'', ''false'', ''False''] then Inr False
      else Inl ErrSyntax)"

text \<open>\<^verbatim>\<open>strings.Split(s, sep)\<close> for a one-byte separator: one more piece than there are
  separators.\<close>

fun Split :: "string \<Rightarrow> char \<Rightarrow> string list" where
  "Split [] sep = ['''']"
| "Split (c # cs) sep =
     (if c = sep then [] # Split cs sep
      else (c # hd (Split cs sep)) # tl (Split cs sep))"

text \<open>
  \<^verbatim>\<open>strings.TrimSpace\<close> removes the leading and the trailing white space of Unicode. A Go
  string is a sequence of bytes in UTF-8, so the white space characters are given by their
  encodings: the six of ASCII (tab, line feed, vertical tab, form feed, carriage return,
  space), then U+0085, U+00A0, U+1680, U+2000 to U+200A, U+2028, U+2029, U+202F, U+205F
  and U+3000. A byte that starts no such encoding ends the trimming.
\<close>

definition space_runes :: "nat list list" where
  "space_runes =
     [[9], [10], [11], [12], [13], [32],
      [194, 133], [194, 160],
      [225, 154, 128],
      [226, 128, 128], [226, 128, 129], [226, 128, 130], [226, 128, 131],
      [226, 128, 132], [226, 128, 133], [226, 128, 134], [226, 128, 135],
      [226, 128, 136], [226, 128, 137], [226, 128, 138],
      [226, 128, 168], [226, 128, 169], [226, 128, 175],
      [226, 129, 159],
      [227, 128, 128]]"

text \<open>The number of bytes of the encoding in \<open>runes\<close> that \<open>s\<close> begins with, 0 when it
  begins with none.\<close>

definition space_width :: "nat list list \<Rightarrow> string \<Rightarrow> nat" where
  "space_width runes s =
     (case find (\<lambda>r. r \<noteq> [] \<and> take (length r) (map of_char s) = r) runes of
        None \<Rightarrow> 0
      | Some r \<Rightarrow> length r)"

function trim_runes :: "nat list list \<Rightarrow> string \<Rightarrow> string" where
  "trim_runes runes s =
     (if space_width runes s = 0 then s
      else trim_runes runes (drop (space_width runes s) s))"
  by pat_completeness auto
termination
proof (relation "measure (\<lambda>(runes, s). length s)")
  show "wf (measure (\<lambda>(runes, s). length s))" by simp
next
  fix runes :: "nat list list" and s :: string
  assume pos: "space_width runes s \<noteq> 0"
  have "s \<noteq> []"
  proof
    assume "s = []"
    then have "space_width runes s = 0"
      by (auto simp add: space_width_def find_Some_iff split: option.splits)
    with pos show False by simp
  qed
  with pos show "((runes, drop (space_width runes s) s), (runes, s))
      \<in> measure (\<lambda>(runes, s). length s)"
    by simp
qed

text \<open>The trailing white space is the leading one of the reversed string, with the
  encodings reversed.\<close>

definition TrimSpace :: "string \<Rightarrow> string" where
  "TrimSpace s = rev (trim_runes (map rev space_runes) (rev (trim_runes space_runes s)))"

section \<open>The environment loader\<close>

text \<open>
  \<^verbatim>\<open>godotenv.Read()\<close> opens and parses the \<^verbatim>\<open>.env\<close> file of the working directory. Its
  result is the input of the loader: the key/value map of the file, or the error of the
  read (the file is missing, cannot be opened or read, or does not parse).
\<close>

datatype ReadError = ErrNotExist | ErrPermission | ErrParse

text \<open>The errors the program builds with \<^verbatim>\<open>fmt.Errorf\<close>, named after their messages.\<close>

datatype error =
    ConfigFileDoesNotExist string
  | FailedToReadConfigFile
  | FailedToParseJSONConfig
  | FailedToLoadEnvironmentConfiguration error
  | ServerFailedToStart
  | GracefulShutdownFailed

definition LoadEnvConfig :: "ReadError + (string \<rightharpoonup> string) \<Rightarrow> error + Config" where
  "LoadEnvConfig dotenv =
     (case dotenv of
        Inl err \<Rightarrow> Inr GetDefaultConfig
      | Inr envVars \<Rightarrow>
          (let c0 = GetDefaultConfig;
               c1 = (case envVars ''PORT'' of
                       None \<Rightarrow> c0
                     | Some portStr \<Rightarrow>
                         if portStr \<noteq> []
                         then (case Atoi portStr of
                                 Inr port \<Rightarrow> c0\<lparr>Server := (Server c0)\<lparr>Port := port\<rparr>\<rparr>
                               | Inl e \<Rightarrow> c0)
                         else c0);
               c2 = (case envVars ''ALLOWED_ORIGINS'' of
                       None \<Rightarrow> c1
                     | Some originsStr \<Rightarrow>
                         if originsStr \<noteq> []
                         then c1\<lparr>Server := (Server c1)\<lparr>AllowedOrigins :=
                                 map TrimSpace (Split originsStr CHR '','')\<rparr>\<rparr>
                         else c1);
               c3 = (case envVars ''ENABLE_LOGGING'' of
                       None \<Rightarrow> c2
                     | Some loggingStr \<Rightarrow>
                         if loggingStr \<noteq> []
                         then (case ParseBool loggingStr of
                                 Inr logging \<Rightarrow>
                                   c2\<lparr>Server := (Server c2)\<lparr>EnableLogging := logging\<rparr>\<rparr>
                               | Inl e \<Rightarrow> c2)
                         else c2)
           in Inr c3))"

section \<open>The file loader\<close>

text \<open>
  A JSON text as its syntax tree. \<open>JNumber\<close> is a number literal written as an integer,
  an optional minus sign and digits; \<open>JFraction\<close> is any other number literal, one with
  a fraction or an exponent, whatever its value (\<^verbatim>\<open>3000.0\<close> and \<^verbatim>\<open>1e3\<close> are of this
  kind, and no \<^verbatim>\<open>int\<close> field takes them). The members of an object keep their order.
\<close>

datatype json =
    JNull
  | JBool bool
  | JNumber int
  | JFraction
  | JString string
  | JArray "json list"
  | JObject "(string \<times> json) list"

datatype UnmarshalError = SyntaxError | UnmarshalTypeError

text \<open>
  The decoder addresses a struct field by the name of its \<^verbatim>\<open>json\<close> tag and, for an
  exported field without a tag, by its Go name; there is no \<^verbatim>\<open>json:"-"\<close> tag in
  \<^verbatim>\<open>ServerConfig\<close>. So the four fields whose tags were removed are addressed by
  \<^verbatim>\<open>ShutdownTimeout\<close>, \<^verbatim>\<open>ReadTimeout\<close>, \<^verbatim>\<open>WriteTimeout\<close> and \<^verbatim>\<open>AllowedMethods\<close>.
\<close>

definition Config_json_names :: "string list" where
  "Config_json_names = [''server'']"

definition ServerConfig_json_names :: "string list" where
  "ServerConfig_json_names =
     [''port'', ''ShutdownTimeout'', ''ReadTimeout'', ''WriteTimeout'',
      ''allowed_origins'', ''AllowedMethods'', ''enable_logging'']"

definition to_lower :: "char \<Rightarrow> char" where
  "to_lower c =
     (if 65 \<le> (of_char c :: nat) \<and> (of_char c :: nat) \<le> 90
      then char_of ((of_char c :: nat) + 32) else c)"

text \<open>An object key selects the field of that exact name, or else the first field whose
  name differs from it in the case of ASCII letters only; a key that selects no field is
  skipped.\<close>

definition field_of_key :: "string list \<Rightarrow> string \<Rightarrow> string option" where
  "field_of_key names key =
     (if key \<in> set names then Some key
      else find (\<lambda>n. map to_lower n = map to_lower key) names)"

text \<open>Decoding one JSON value into a field of each Go type in use; \<open>cur\<close> is the value
  the field holds. \<^verbatim>\<open>null\<close> leaves a scalar as it is and makes a slice nil.\<close>

definition decode_int :: "json \<Rightarrow> int \<Rightarrow> UnmarshalError + int" where
  "decode_int v cur =
     (case v of
        JNull \<Rightarrow> Inr cur
      | JNumber n \<Rightarrow>
          if n < - (2 ^ 63) then Inl UnmarshalTypeError
          else if 2 ^ 63 - 1 < n then Inl UnmarshalTypeError
          else Inr n
      | _ \<Rightarrow> Inl UnmarshalTypeError)"

definition decode_bool :: "json \<Rightarrow> bool \<Rightarrow> UnmarshalError + bool" where
  "decode_bool v cur =
     (case v of
        JNull \<Rightarrow> Inr cur
      | JBool b \<Rightarrow> Inr b
      | _ \<Rightarrow> Inl UnmarshalTypeError)"

definition decode_string :: "json \<Rightarrow> string \<Rightarrow> UnmarshalError + string" where
  "decode_string v cur =
     (case v of
        JNull \<Rightarrow> Inr cur
      | JString str \<Rightarrow> Inr str
      | _ \<Rightarrow> Inl UnmarshalTypeError)"

fun decode_elements :: "json list \<Rightarrow> UnmarshalError + string list" where
  "decode_elements [] = Inr []"
| "decode_elements (v # vs) =
     (case decode_string v [] of
        Inl e \<Rightarrow> Inl e
      | Inr str \<Rightarrow>
          (case decode_elements vs of
             Inl e \<Rightarrow> Inl e
           | Inr strs \<Rightarrow> Inr (str # strs)))"

definition decode_strings :: "json \<Rightarrow> UnmarshalError + string list" where
  "decode_strings v =
     (case v of
        JNull \<Rightarrow> Inr []
      | JArray vs \<Rightarrow> decode_elements vs
      | _ \<Rightarrow> Inl UnmarshalTypeError)"

text \<open>The members of an object are decoded in their order, so of two members for one
  field the later one stays; the first failure ends the decoding.\<close>

fun decode_members ::
  "('a \<Rightarrow> string \<Rightarrow> json \<Rightarrow> UnmarshalError + 'a) \<Rightarrow> (string \<times> json) list \<Rightarrow> 'a
     \<Rightarrow> UnmarshalError + 'a" where
  "decode_members f [] x = Inr x"
| "decode_members f ((key, v) # ms) x =
     (case f x key v of
        Inl e \<Rightarrow> Inl e
      | Inr x' \<Rightarrow> decode_members f ms x')"

definition decode_ServerConfig_field ::
  "ServerConfig \<Rightarrow> string \<Rightarrow> json \<Rightarrow> UnmarshalError + ServerConfig" where
  "decode_ServerConfig_field sc key v =
     (case field_of_key ServerConfig_json_names key of
        None \<Rightarrow> Inr sc
      | Some name \<Rightarrow>
          if name = ''port''
          then map_sum id (\<lambda>n. sc\<lparr>Port := n\<rparr>) (decode_int v (Port sc))
          else if name = ''ShutdownTimeout''
          then map_sum id (\<lambda>n. sc\<lparr>ShutdownTimeout := n\<rparr>)
                 (decode_int v (ShutdownTimeout sc))
          else if name = ''ReadTimeout''
          then map_sum id (\<lambda>n. sc\<lparr>ReadTimeout := n\<rparr>) (decode_int v (ReadTimeout sc))
          else if name = ''WriteTimeout''
          then map_sum id (\<lambda>n. sc\<lparr>WriteTimeout := n\<rparr>) (decode_int v (WriteTimeout sc))
          else if name = ''allowed_origins''
          then map_sum id (\<lambda>xs. sc\<lparr>AllowedOrigins := xs\<rparr>) (decode_strings v)
          else if name = ''AllowedMethods''
          then map_sum id (\<lambda>xs. sc\<lparr>AllowedMethods := xs\<rparr>) (decode_strings v)
          else map_sum id (\<lambda>b. sc\<lparr>EnableLogging := b\<rparr>)
                 (decode_bool v (EnableLogging sc)))"

definition decode_ServerConfig :: "json \<Rightarrow> ServerConfig \<Rightarrow> UnmarshalError + ServerConfig" where
  "decode_ServerConfig v sc =
     (case v of
        JNull \<Rightarrow> Inr sc
      | JObject ms \<Rightarrow> decode_members decode_ServerConfig_field ms sc
      | _ \<Rightarrow> Inl UnmarshalTypeError)"

definition decode_Config_field ::
  "Config \<Rightarrow> string \<Rightarrow> json \<Rightarrow> UnmarshalError + Config" where
  "decode_Config_field c key v =
     (case field_of_key Config_json_names key of
        None \<Rightarrow> Inr c
      | Some name \<Rightarrow>
          map_sum id (\<lambda>sc. c\<lparr>Server := sc\<rparr>) (decode_ServerConfig v (Server c)))"

definition decode_Config :: "json \<Rightarrow> Config \<Rightarrow> UnmarshalError + Config" where
  "decode_Config v c =
     (case v of
        JNull \<Rightarrow> Inr c
      | JObject ms \<Rightarrow> decode_members decode_Config_field ms c
      | _ \<Rightarrow> Inl UnmarshalTypeError)"

text \<open>
  The bytes of a file are given by what the JSON scanner makes of them: no JSON text, or
  the tree of the text. \<^verbatim>\<open>json.Unmarshal(data, &config)\<close> takes the value \<open>config\<close> holds
  and returns the decoded one.
\<close>

datatype file_data = NotJSON | JSONText json

definition Unmarshal :: "file_data \<Rightarrow> Config \<Rightarrow> UnmarshalError + Config" where
  "Unmarshal data config =
     (case data of
        NotJSON \<Rightarrow> Inl SyntaxError
      | JSONText v \<Rightarrow> decode_Config v config)"

text \<open>What the file system holds at a path: nothing (\<^verbatim>\<open>os.Stat\<close> reports that the file does
  not exist), a file that \<^verbatim>\<open>os.ReadFile\<close> fails on, or a file with its bytes.\<close>

datatype file_state = NoSuchFile | Unreadable | Contents file_data

text \<open>\<^verbatim>\<open>var config Config\<close>: every field at the zero value of its type.\<close>

definition zero_Config :: Config where
  "zero_Config =
     \<lparr>Server = \<lparr>Port = 0, ShutdownTimeout = 0, ReadTimeout = 0, WriteTimeout = 0,
                 AllowedOrigins = [], AllowedMethods = [], EnableLogging = False\<rparr>\<rparr>"

definition LoadConfig :: "(string \<Rightarrow> file_state) \<Rightarrow> string \<Rightarrow> error + Config" where
  "LoadConfig fs path =
     (case fs path of
        NoSuchFile \<Rightarrow> Inl (ConfigFileDoesNotExist path)
      | Unreadable \<Rightarrow> Inl FailedToReadConfigFile
      | Contents data \<Rightarrow>
          (case Unmarshal data zero_Config of
             Inl e \<Rightarrow> Inl FailedToParseJSONConfig
           | Inr config \<Rightarrow> Inr config))"

section \<open>The process (main.go)\<close>

datatype Signal = SIGINT | SIGTERM

text \<open>The lines the calling goroutine writes to the log.\<close>

datatype LogLine =
    WarningFailedToLoadJSONConfig string error
  | ReceivedSignal Signal
  | GracefulShutdownFailedLine
  | ServerShutdownCompleted
  | FatalFailedToLoadConfiguration error
  | FatalServerFailed error

text \<open>\<^verbatim>\<open>os.Getenv\<close>: the empty string for a variable that is not set.\<close>

definition Getenv :: "(string \<rightharpoonup> string) \<Rightarrow> string \<Rightarrow> string" where
  "Getenv env key = (case env key of None \<Rightarrow> [] | Some v \<Rightarrow> v)"

text \<open>
  \<^verbatim>\<open>loadConfiguration\<close> reads the process environment \<open>env\<close>, the file system \<open>fs\<close>
  and the result \<open>dotenv\<close> of \<^verbatim>\<open>godotenv.Read()\<close>; it returns the lines it logged and its
  result.
\<close>

definition loadConfiguration ::
  "(string \<rightharpoonup> string) \<Rightarrow> (string \<Rightarrow> file_state) \<Rightarrow> ReadError + (string \<rightharpoonup> string)
     \<Rightarrow> LogLine list \<times> (error + Config)" where
  "loadConfiguration env fs dotenv =
     (let cfg0 = GetDefaultConfig;
          configPath = Getenv env ''CONFIG_PATH'';
          (cfg1, logged) =
            (if configPath \<noteq> []
             then (case LoadConfig fs configPath of
                     Inr jsonCfg \<Rightarrow> (MergeConfigs (Some cfg0) (Some jsonCfg), [])
                   | Inl err \<Rightarrow> (cfg0, [WarningFailedToLoadJSONConfig configPath err]))
             else (cfg0, []))
      in case LoadEnvConfig dotenv of
           Inl err \<Rightarrow> (logged, Inl (FailedToLoadEnvironmentConfiguration err))
         | Inr envCfg \<Rightarrow> (logged, Inr (MergeConfigs (Some cfg1) (Some envCfg))))"

text \<open>
  \<^verbatim>\<open>startServerWithGracefulShutdown\<close> blocks in a \<^verbatim>\<open>select\<close> on two channels. Its inputs
  are the event the \<^verbatim>\<open>select\<close> receives, and, for a signal, what
  \<^verbatim>\<open>server.Shutdown(ctx)\<close> then returns under the deadline of ShutdownTimeout seconds:
  \<open>None\<close> (nil) when every connection went idle in time, the error of the context
  (\<^verbatim>\<open>context.DeadlineExceeded\<close>) when the deadline passed first, or the error of closing
  the listeners.
\<close>

datatype SelectEvent = ServerErr | Sig Signal

datatype ShutdownError = DeadlineExceeded | ListenerCloseFailed

definition startServerWithGracefulShutdown ::
  "SelectEvent \<Rightarrow> ShutdownError option \<Rightarrow> LogLine list \<times> error option" where
  "startServerWithGracefulShutdown ev shutdown =
     (case ev of
        ServerErr \<Rightarrow> ([], Some ServerFailedToStart)
      | Sig sig \<Rightarrow>
          (case shutdown of
             Some err \<Rightarrow>
               ([ReceivedSignal sig, GracefulShutdownFailedLine], Some GracefulShutdownFailed)
           | None \<Rightarrow> ([ReceivedSignal sig, ServerShutdownCompleted], None)))"

text \<open>
  \<^verbatim>\<open>main\<close>: the log and the exit status of the process. \<^verbatim>\<open>log.Fatalf\<close> writes its line
  and calls \<^verbatim>\<open>os.Exit(1)\<close>; returning from \<^verbatim>\<open>main\<close> is exit status 0. Building the
  handler, the router and the \<^verbatim>\<open>http.Server\<close> value between the two calls neither fails
  nor logs.
\<close>

definition main ::
  "(string \<rightharpoonup> string) \<Rightarrow> (string \<Rightarrow> file_state) \<Rightarrow> ReadError + (string \<rightharpoonup> string)
     \<Rightarrow> SelectEvent \<Rightarrow> ShutdownError option \<Rightarrow> LogLine list \<times> nat" where
  "main env fs dotenv ev shutdown =
     (case loadConfiguration env fs dotenv of
        (logged, Inl err) \<Rightarrow> (logged @ [FatalFailedToLoadConfiguration err], 1)
      | (logged, Inr cfg) \<Rightarrow>
          (case startServerWithGracefulShutdown ev shutdown of
             (logged', Some err) \<Rightarrow> (logged @ logged' @ [FatalServerFailed err], 1)
           | (logged', None) \<Rightarrow> (logged @ logged', 0)))"

section \<open>Properties of the merge\<close>

lemma copy_slice_make: "copy_slice (make_slice (length xs)) xs = xs"
  by (simp add: copy_slice_def make_slice_def)

text \<open>
  The merge of two non-nil configurations in closed form: every \<^verbatim>\<open>make\<close>/\<^verbatim>\<open>copy\<close>
  pair yields the copied slice.
\<close>

lemma MergeConfigs_Some:
  "MergeConfigs (Some b) (Some ov) =
     \<lparr>Server = \<lparr>Port = (if Port (Server ov) \<noteq> 0 then Port (Server ov) else Port (Server b)),
                 ShutdownTimeout = ShutdownTimeout (Server b),
                 ReadTimeout = ReadTimeout (Server b),
                 WriteTimeout = WriteTimeout (Server b),
                 AllowedOrigins = (if AllowedOrigins (Server ov) \<noteq> []
                                   then AllowedOrigins (Server ov)
                                   else AllowedOrigins (Server b)),
                 AllowedMethods = AllowedMethods (Server b),
                 EnableLogging = EnableLogging (Server ov)\<rparr>\<rparr>"
  by (simp add: MergeConfigs_def Let_def copy_slice_make)

text \<open>
  Claim C1. For non-nil \<open>base\<close> and \<open>override\<close>, the merged configuration has the
  ShutdownTimeout, ReadTimeout, WriteTimeout and AllowedMethods of \<open>base\<close>, whatever
  \<open>override\<close> holds in those fields.
\<close>

theorem MergeConfigs_hardcoded_from_base:
  "ShutdownTimeout (Server (MergeConfigs (Some base) (Some override)))
     = ShutdownTimeout (Server base)
   \<and> ReadTimeout (Server (MergeConfigs (Some base) (Some override)))
     = ReadTimeout (Server base)
   \<and> WriteTimeout (Server (MergeConfigs (Some base) (Some override)))
     = WriteTimeout (Server base)
   \<and> AllowedMethods (Server (MergeConfigs (Some base) (Some override)))
     = AllowedMethods (Server base)"
  by (simp add: MergeConfigs_Some)

text \<open>
  Claim C5. For non-nil \<open>base\<close> and \<open>override\<close>: an override Port of 0 leaves the
  Port of \<open>base\<close> in the result, and a non-zero override Port is the result's Port.
\<close>

theorem MergeConfigs_Port:
  "(Port (Server override) = 0 \<longrightarrow>
      Port (Server (MergeConfigs (Some base) (Some override))) = Port (Server base))
   \<and> (Port (Server override) \<noteq> 0 \<longrightarrow>
      Port (Server (MergeConfigs (Some base) (Some override))) = Port (Server override))"
  by (simp add: MergeConfigs_Some)

theorem MergeConfigs_Port_witness:
  "Port (Server \<lparr>Server = \<lparr>Port = 0, ShutdownTimeout = 0, ReadTimeout = 0,
       WriteTimeout = 0, AllowedOrigins = [], AllowedMethods = [],
       EnableLogging = False\<rparr>\<rparr>) = 0
   \<and> Port (Server (MergeConfigs (Some GetDefaultConfig)
         (Some \<lparr>Server = \<lparr>Port = 0, ShutdownTimeout = 0, ReadTimeout = 0,
            WriteTimeout = 0, AllowedOrigins = [], AllowedMethods = [],
            EnableLogging = False\<rparr>\<rparr>))) = 8080
   \<and> Port (Server \<lparr>Server = \<lparr>Port = 3000, ShutdownTimeout = 0, ReadTimeout = 0,
       WriteTimeout = 0, AllowedOrigins = [], AllowedMethods = [],
       EnableLogging = False\<rparr>\<rparr>) \<noteq> 0
   \<and> Port (Server (MergeConfigs (Some GetDefaultConfig)
         (Some \<lparr>Server = \<lparr>Port = 3000, ShutdownTimeout = 0, ReadTimeout = 0,
            WriteTimeout = 0, AllowedOrigins = [], AllowedMethods = [],
            EnableLogging = False\<rparr>\<rparr>))) = 3000"
  using
    MergeConfigs_Port [of "\<lparr>Server = \<lparr>Port = 0, ShutdownTimeout = 0, ReadTimeout = 0,
       WriteTimeout = 0, AllowedOrigins = [], AllowedMethods = [],
       EnableLogging = False\<rparr>\<rparr>" GetDefaultConfig]
    MergeConfigs_Port [of "\<lparr>Server = \<lparr>Port = 3000, ShutdownTimeout = 0, ReadTimeout = 0,
       WriteTimeout = 0, AllowedOrigins = [], AllowedMethods = [],
       EnableLogging = False\<rparr>\<rparr>" GetDefaultConfig]
  by (simp add: GetDefaultConfig_def)

text \<open>
  Claim C6. For non-nil \<open>base\<close> and \<open>override\<close>: a non-empty override AllowedOrigins
  is the result's AllowedOrigins, element for element and in the same order; an empty one
  leaves the AllowedOrigins of \<open>base\<close>.
\<close>

theorem MergeConfigs_AllowedOrigins:
  "(length (AllowedOrigins (Server override)) > 0 \<longrightarrow>
      AllowedOrigins (Server (MergeConfigs (Some base) (Some override)))
        = AllowedOrigins (Server override))
   \<and> (length (AllowedOrigins (Server override)) = 0 \<longrightarrow>
      AllowedOrigins (Server (MergeConfigs (Some base) (Some override)))
        = AllowedOrigins (Server base))"
  by (simp add: MergeConfigs_Some)

theorem MergeConfigs_AllowedOrigins_witness:
  "length (AllowedOrigins (Server \<lparr>Server = \<lparr>Port = 0, ShutdownTimeout = 0,
       ReadTimeout = 0, WriteTimeout = 0,
       AllowedOrigins = [''http://b.com'', ''http://a.com''], AllowedMethods = [],
       EnableLogging = False\<rparr>\<rparr>)) > 0
   \<and> AllowedOrigins (Server (MergeConfigs (Some GetDefaultConfig)
         (Some \<lparr>Server = \<lparr>Port = 0, ShutdownTimeout = 0, ReadTimeout = 0,
            WriteTimeout = 0, AllowedOrigins = [''http://b.com'', ''http://a.com''],
            AllowedMethods = [], EnableLogging = False\<rparr>\<rparr>)))
       = [''http://b.com'', ''http://a.com'']
   \<and> length (AllowedOrigins (Server \<lparr>Server = \<lparr>Port = 0, ShutdownTimeout = 0,
       ReadTimeout = 0, WriteTimeout = 0, AllowedOrigins = [], AllowedMethods = [],
       EnableLogging = False\<rparr>\<rparr>)) = 0
   \<and> AllowedOrigins (Server (MergeConfigs (Some GetDefaultConfig)
         (Some \<lparr>Server = \<lparr>Port = 0, ShutdownTimeout = 0, ReadTimeout = 0,
            WriteTimeout = 0, AllowedOrigins = [], AllowedMethods = [],
            EnableLogging = False\<rparr>\<rparr>))) = [''*'']"
  using
    MergeConfigs_AllowedOrigins [of "\<lparr>Server = \<lparr>Port = 0, ShutdownTimeout = 0,
       ReadTimeout = 0, WriteTimeout = 0,
       AllowedOrigins = [''http://b.com'', ''http://a.com''], AllowedMethods = [],
       EnableLogging = False\<rparr>\<rparr>" GetDefaultConfig]
    MergeConfigs_AllowedOrigins [of "\<lparr>Server = \<lparr>Port = 0, ShutdownTimeout = 0,
       ReadTimeout = 0, WriteTimeout = 0, AllowedOrigins = [], AllowedMethods = [],
       EnableLogging = False\<rparr>\<rparr>" GetDefaultConfig]
  by (simp add: GetDefaultConfig_def)

text \<open>
  Claim C7. For non-nil \<open>base\<close> and \<open>override\<close>, the result's EnableLogging is that of
  \<open>override\<close>, verbatim; in particular a base with EnableLogging true merged with an
  override whose EnableLogging is false gives false.
\<close>

theorem MergeConfigs_EnableLogging:
  "EnableLogging (Server (MergeConfigs (Some base) (Some override)))
     = EnableLogging (Server override)
   \<and> \<not> EnableLogging (Server (MergeConfigs
         (Some (base\<lparr>Server := (Server base)\<lparr>EnableLogging := True\<rparr>\<rparr>))
         (Some (override\<lparr>Server := (Server override)\<lparr>EnableLogging := False\<rparr>\<rparr>))))"
  by (simp add: MergeConfigs_Some)

text \<open>
  On its operands alone the merge is associative, and a double merge of \<open>a\<close>, \<open>b\<close>,
  \<open>c\<close> takes a Port or AllowedOrigins present in \<open>c\<close>, else one present in \<open>b\<close>, else
  that of \<open>a\<close>. What \<^verbatim>\<open>loadConfiguration\<close> makes of this depends on the operands it
  passes; see the configuration pipeline below.
\<close>

lemma MergeConfigs_assoc:
  "MergeConfigs (Some (MergeConfigs (Some a) (Some b))) (Some c)
     = MergeConfigs (Some a) (Some (MergeConfigs (Some b) (Some c)))
   \<and> Port (Server (MergeConfigs (Some (MergeConfigs (Some a) (Some b))) (Some c)))
     = (if Port (Server c) \<noteq> 0 then Port (Server c)
        else if Port (Server b) \<noteq> 0 then Port (Server b)
        else Port (Server a))
   \<and> AllowedOrigins (Server (MergeConfigs (Some (MergeConfigs (Some a) (Some b))) (Some c)))
     = (if AllowedOrigins (Server c) \<noteq> [] then AllowedOrigins (Server c)
        else if AllowedOrigins (Server b) \<noteq> [] then AllowedOrigins (Server b)
        else AllowedOrigins (Server a))"
  by (simp add: MergeConfigs_Some)

text \<open>
  Claim C10. The merge is idempotent: a non-nil configuration merged with itself is equal
  to itself in every field.
\<close>

theorem MergeConfigs_idem:
  "MergeConfigs (Some c) (Some c) = c"
  by (cases c, cases "Server c") (simp add: MergeConfigs_Some)

section \<open>Properties of the environment loader\<close>

lemma LoadEnvConfig_total: "\<exists>cfg. LoadEnvConfig dotenv = Inr cfg"
  by (cases dotenv) (simp_all add: LoadEnvConfig_def Let_def)

lemma loadConfiguration_total:
  "\<exists>logged cfg. loadConfiguration env fs dotenv = (logged, Inr cfg)"
proof -
  obtain envCfg where "LoadEnvConfig dotenv = Inr envCfg"
    using LoadEnvConfig_total by blast
  then show ?thesis
    by (simp add: loadConfiguration_def Let_def split: prod.splits)
qed

text \<open>
  Claim C3 fails on the code. The loader is to fail exactly when the read of the
  environment file fails for a reason other than a missing file. With a file that may not
  be opened, or one that does not parse, the read fails for such a reason, yet the loader
  returns the default configuration and no error, and \<^verbatim>\<open>loadConfiguration\<close> goes on
  with it: the comments of the branch speak of the missing file only, but the branch is
  taken on every error.
\<close>

theorem LoadEnvConfig_swallows_read_error:
  "ErrPermission \<noteq> ErrNotExist
   \<and> LoadEnvConfig (Inl ErrPermission) = Inr GetDefaultConfig
   \<and> ErrParse \<noteq> ErrNotExist
   \<and> LoadEnvConfig (Inl ErrParse) = Inr GetDefaultConfig
   \<and> loadConfiguration Map.empty (\<lambda>path. NoSuchFile) (Inl ErrPermission)
       = ([], Inr GetDefaultConfig)"
  by (simp add: LoadEnvConfig_def loadConfiguration_def Getenv_def MergeConfigs_Some
        GetDefaultConfig_def)

text \<open>
  Claim C8. When the environment holds a PORT that \<^verbatim>\<open>strconv.Atoi\<close> rejects, or an
  ENABLE_LOGGING that \<^verbatim>\<open>strconv.ParseBool\<close> rejects, the loader succeeds and the field
  has the value of the default provider.
\<close>

theorem LoadEnvConfig_malformed_keeps_default:
  "(envVars ''PORT'' = Some portStr \<and> Atoi portStr = Inl e \<longrightarrow>
      (\<exists>cfg. LoadEnvConfig (Inr envVars) = Inr cfg
         \<and> Port (Server cfg) = Port (Server GetDefaultConfig)))
   \<and> (envVars ''ENABLE_LOGGING'' = Some loggingStr \<and> ParseBool loggingStr = Inl e' \<longrightarrow>
      (\<exists>cfg. LoadEnvConfig (Inr envVars) = Inr cfg
         \<and> EnableLogging (Server cfg) = EnableLogging (Server GetDefaultConfig)))"
  by (simp add: LoadEnvConfig_def Let_def split: option.splits sum.splits)

theorem LoadEnvConfig_malformed_keeps_default_witness:
  "[''PORT'' \<mapsto> ''not_a_number'', ''ENABLE_LOGGING'' \<mapsto> ''maybe''] ''PORT''
     = Some ''not_a_number''
   \<and> Atoi ''not_a_number'' = Inl ErrSyntax
   \<and> [''PORT'' \<mapsto> ''not_a_number'', ''ENABLE_LOGGING'' \<mapsto> ''maybe''] ''ENABLE_LOGGING''
     = Some ''maybe''
   \<and> ParseBool ''maybe'' = Inl ErrSyntax
   \<and> (\<exists>cfg. LoadEnvConfig
               (Inr [''PORT'' \<mapsto> ''not_a_number'', ''ENABLE_LOGGING'' \<mapsto> ''maybe''])
             = Inr cfg
         \<and> Port (Server cfg) = 8080 \<and> EnableLogging (Server cfg))"
proof -
  let ?env = "[''PORT'' \<mapsto> ''not_a_number'', ''ENABLE_LOGGING'' \<mapsto> ''maybe'']"
  have p: "?env ''PORT'' = Some ''not_a_number''" by simp
  have a: "Atoi ''not_a_number'' = Inl ErrSyntax" by (simp add: Atoi_def is_digit_def)
  have l: "?env ''ENABLE_LOGGING'' = Some ''maybe''" by simp
  have b: "ParseBool ''maybe'' = Inl ErrSyntax" by (simp add: ParseBool_def)
  from LoadEnvConfig_malformed_keeps_default
         [of ?env "''not_a_number''" ErrSyntax "''maybe''" ErrSyntax] p a l b
  have "(\<exists>cfg. LoadEnvConfig (Inr ?env) = Inr cfg
           \<and> Port (Server cfg) = Port (Server GetDefaultConfig))
        \<and> (\<exists>cfg. LoadEnvConfig (Inr ?env) = Inr cfg
           \<and> EnableLogging (Server cfg) = EnableLogging (Server GetDefaultConfig))"
    by blast
  then have "\<exists>cfg. LoadEnvConfig (Inr ?env) = Inr cfg
         \<and> Port (Server cfg) = 8080 \<and> EnableLogging (Server cfg)"
    by (auto simp add: GetDefaultConfig_def)
  with p a l b show ?thesis by blast
qed

section \<open>Properties of the file loader\<close>

text \<open>
  Claim C4 fails on the code. A file that names a hardcoded field by its Go name parses,
  and the loader returns the values of the file in ShutdownTimeout, ReadTimeout,
  WriteTimeout and AllowedMethods, not the zero values.
\<close>

theorem LoadConfig_reads_untagged_fields:
  "LoadConfig
     (\<lambda>path. Contents (JSONText (JObject
        [(''server'', JObject
           [(''port'', JNumber 3000),
            (''ShutdownTimeout'', JNumber 99),
            (''ReadTimeout'', JNumber 98),
            (''WriteTimeout'', JNumber 97),
            (''AllowedMethods'', JArray [JString ''TRACE''])])])))
     ''config.json''
   = Inr \<lparr>Server = \<lparr>Port = 3000, ShutdownTimeout = 99, ReadTimeout = 98,
                     WriteTimeout = 97, AllowedOrigins = [],
                     AllowedMethods = [''TRACE''], EnableLogging = False\<rparr>\<rparr>"
  by (simp add: LoadConfig_def Unmarshal_def decode_Config_def decode_Config_field_def
        decode_ServerConfig_def decode_ServerConfig_field_def field_of_key_def
        Config_json_names_def ServerConfig_json_names_def decode_int_def
        decode_strings_def decode_string_def zero_Config_def)

section \<open>Properties of the configuration pipeline\<close>

text \<open>
  Claim C9 fails on the code. The merge is associative on its operands, and
  \<^verbatim>\<open>loadConfiguration\<close> applies it twice to realize the precedence environment over file
  over default. It does not: the environment loader starts from the default
  configuration, so what it returns has a Port, AllowedOrigins and EnableLogging even
  where the environment sets none, and the second merge takes them for values of the
  environment. With CONFIG_PATH naming a file that sets the port to 3000 and no
  environment file, the file loads with Port 3000 and the first merge yields Port 3000,
  but \<^verbatim>\<open>loadConfiguration\<close> returns the default configuration, Port 8080: the default
  wins over the file. A PORT of 4000 in the environment file does win over the file.
\<close>

theorem loadConfiguration_default_beats_file:
  "LoadConfig
     (\<lambda>path. Contents (JSONText (JObject [(''server'', JObject [(''port'', JNumber 3000)])])))
     ''config.json''
     = Inr \<lparr>Server = \<lparr>Port = 3000, ShutdownTimeout = 0, ReadTimeout = 0,
                       WriteTimeout = 0, AllowedOrigins = [], AllowedMethods = [],
                       EnableLogging = False\<rparr>\<rparr>
   \<and> Port (Server (MergeConfigs (Some GetDefaultConfig)
         (Some \<lparr>Server = \<lparr>Port = 3000, ShutdownTimeout = 0, ReadTimeout = 0,
                           WriteTimeout = 0, AllowedOrigins = [], AllowedMethods = [],
                           EnableLogging = False\<rparr>\<rparr>))) = 3000
   \<and> Port (Server GetDefaultConfig) = 8080
   \<and> loadConfiguration [''CONFIG_PATH'' \<mapsto> ''config.json'']
       (\<lambda>path. Contents (JSONText (JObject [(''server'', JObject [(''port'', JNumber 3000)])])))
       (Inl ErrNotExist)
     = ([], Inr GetDefaultConfig)
   \<and> loadConfiguration [''CONFIG_PATH'' \<mapsto> ''config.json'']
       (\<lambda>path. Contents (JSONText (JObject [(''server'', JObject [(''port'', JNumber 3000)])])))
       (Inr [''PORT'' \<mapsto> ''4000''])
     = ([], Inr (GetDefaultConfig\<lparr>Server := (Server GetDefaultConfig)\<lparr>Port := 4000\<rparr>\<rparr>))"
proof -
  let ?fs = "\<lambda>path :: string. Contents (JSONText (JObject
               [(''server'', JObject [(''port'', JNumber 3000)])]))"
  let ?file = "\<lparr>Server = \<lparr>Port = 3000, ShutdownTimeout = 0, ReadTimeout = 0,
                 WriteTimeout = 0, AllowedOrigins = [], AllowedMethods = [],
                 EnableLogging = False\<rparr>\<rparr>"
  have loaded: "LoadConfig ?fs ''config.json'' = Inr ?file"
    by (simp add: LoadConfig_def Unmarshal_def decode_Config_def decode_Config_field_def
          decode_ServerConfig_def decode_ServerConfig_field_def field_of_key_def
          Config_json_names_def ServerConfig_json_names_def decode_int_def
          zero_Config_def)
  have first: "Port (Server (MergeConfigs (Some GetDefaultConfig) (Some ?file))) = 3000"
    by (simp add: MergeConfigs_Some)
  have dflt: "Port (Server GetDefaultConfig) = 8080"
    by (simp add: GetDefaultConfig_def)
  have env_none: "LoadEnvConfig (Inl ErrNotExist) = Inr GetDefaultConfig"
    by (simp add: LoadEnvConfig_def)
  have env_port: "LoadEnvConfig (Inr [''PORT'' \<mapsto> ''4000''])
      = Inr (GetDefaultConfig\<lparr>Server := (Server GetDefaultConfig)\<lparr>Port := 4000\<rparr>\<rparr>)"
    by (simp add: LoadEnvConfig_def Atoi_def is_digit_def)
  have lost: "loadConfiguration [''CONFIG_PATH'' \<mapsto> ''config.json''] ?fs (Inl ErrNotExist)
      = ([], Inr GetDefaultConfig)"
    by (simp add: loadConfiguration_def Getenv_def loaded env_none MergeConfigs_Some
          GetDefaultConfig_def)
  have won: "loadConfiguration [''CONFIG_PATH'' \<mapsto> ''config.json''] ?fs
        (Inr [''PORT'' \<mapsto> ''4000''])
      = ([], Inr (GetDefaultConfig\<lparr>Server := (Server GetDefaultConfig)\<lparr>Port := 4000\<rparr>\<rparr>))"
    by (simp add: loadConfiguration_def Getenv_def loaded env_port MergeConfigs_Some
          GetDefaultConfig_def)
  from loaded first dflt lost won show ?thesis by blast
qed

section \<open>Properties of the shutdown\<close>

text \<open>
  Claim C2, as amended. When the deadline of the drain passes before the requests in
  flight finish, the failure of the shutdown is logged and returned as an error, the
  caller treats it as fatal, and the process exits with status 1; it exits with status 0
  after a drain that finished in time.
\<close>

theorem shutdown_timeout_is_fatal:
  "snd (main env fs dotenv (Sig sig) (Some DeadlineExceeded)) = 1
   \<and> GracefulShutdownFailedLine
       \<in> set (fst (main env fs dotenv (Sig sig) (Some DeadlineExceeded)))
   \<and> FatalServerFailed GracefulShutdownFailed
       \<in> set (fst (main env fs dotenv (Sig sig) (Some DeadlineExceeded)))
   \<and> snd (main env fs dotenv (Sig sig) None) = 0"
proof -
  obtain logged cfg where "loadConfiguration env fs dotenv = (logged, Inr cfg)"
    using loadConfiguration_total by blast
  then show ?thesis
    by (simp add: main_def startServerWithGracefulShutdown_def)
qed

text \<open>
  The claim as stated fails: with no configuration file and no environment file, a
  SIGTERM whose drain runs into the deadline ends the process with status 1.
\<close>

theorem shutdown_timeout_counterexample:
  "main Map.empty (\<lambda>path. NoSuchFile) (Inl ErrNotExist) (Sig SIGTERM) (Some DeadlineExceeded)
     = ([ReceivedSignal SIGTERM, GracefulShutdownFailedLine,
         FatalServerFailed GracefulShutdownFailed], 1)"
  by (simp add: main_def startServerWithGracefulShutdown_def loadConfiguration_def
        Getenv_def LoadEnvConfig_def)

end
